theory Spec2Isabelle
  imports Main "HOL-Library.Word"
begin

section \<open>The error classifier \<open>handleGenericError\<close>\<close>

text \<open>
  The module under verification is one TypeScript function,
  \<^verbatim>\<open>handleGenericError(error: any): string\<close>, which turns a value thrown by an HTTP
  call into a message for the user. Its parameter has type \<^verbatim>\<open>any\<close>, so the model starts
  with the values of the language and the operations of the platform that the function
  uses on them; the function itself follows, statement by statement.

  The values are data: the seven kinds of primitive values, arrays, and objects with data
  properties. Function values, accessor properties, proxies, wrapper objects and cyclic
  structures are code or identity and are outside the model; over data, reading a
  property has no effect and gives the same value each time.
\<close>

subsection \<open>Strings\<close>

text \<open>A string of the language is a sequence of UTF-16 code units.\<close>

type_synonym jsstring = "16 word list"

definition str :: "string \<Rightarrow> jsstring" where
  "str s = map (\<lambda>c. of_nat (of_char c)) s"

text \<open>
  The code units that \<^verbatim>\<open>String.prototype.trim\<close> strips: the WhiteSpace and LineTerminator
  productions of the language (TAB, LF, VT, FF, CR, SP, NBSP, the space separators of
  Unicode, LS, PS and ZWNBSP).
\<close>

definition is_whitespace :: "16 word \<Rightarrow> bool" where
  "is_whitespace c \<longleftrightarrow>
     c \<in> {0x0009, 0x000A, 0x000B, 0x000C, 0x000D, 0x0020, 0x00A0, 0x1680,
          0x2028, 0x2029, 0x202F, 0x205F, 0x3000, 0xFEFF}
     \<or> (0x2000 \<le> c \<and> c \<le> 0x200A)"

definition String_trim :: "jsstring \<Rightarrow> jsstring" where
  "String_trim s = rev (dropWhile is_whitespace (rev (dropWhile is_whitespace s)))"

subsection \<open>Numbers\<close>

text \<open>
  A number is NaN, an infinity (the flag is the sign, \<open>True\<close> for negative) or finite. A
  finite number is carried by the decimal digits \<open>s\<close> and the exponent \<open>n\<close> from which the
  language prints it: \<open>Decimal neg s n\<close> is \<open>s * 10 ^ (n - k)\<close>, negated when \<open>neg\<close>, where
  \<open>k\<close> is the number of decimal digits of \<open>s\<close>. Both zeros have \<open>s = 0\<close>.
\<close>

datatype jsnumber = NaN | Infinity bool | Decimal bool nat int

fun decimal_digits :: "nat \<Rightarrow> jsstring" where
  "decimal_digits n =
     (if n < 10 then [of_nat (48 + n)]
      else decimal_digits (n div 10) @ [of_nat (48 + n mod 10)])"

declare decimal_digits.simps [simp del]

definition Number_of_nat :: "nat \<Rightarrow> jsnumber" where
  "Number_of_nat n = Decimal False n (int (length (decimal_digits n)))"

text \<open>The comparison \<^verbatim>\<open>===\<close> of two numbers: by value, NaN equal to nothing, the two zeros equal.\<close>

definition scaled :: "bool \<Rightarrow> nat \<Rightarrow> int \<Rightarrow> int \<Rightarrow> int" where
  "scaled neg s x m = (if neg then - 1 else 1) * int s * 10 ^ nat (x - m)"

fun Number_equal :: "jsnumber \<Rightarrow> jsnumber \<Rightarrow> bool" where
  "Number_equal (Infinity a) (Infinity b) = (a = b)"
| "Number_equal (Decimal neg1 s1 n1) (Decimal neg2 s2 n2) =
     (let x1 = n1 - int (length (decimal_digits s1));
          x2 = n2 - int (length (decimal_digits s2));
          m = min x1 x2
      in scaled neg1 s1 x1 m = scaled neg2 s2 x2 m)"
| "Number_equal _ _ = False"

text \<open>
  \<^verbatim>\<open>Number::toString\<close> in radix 10, from the digits \<open>s\<close> (there are \<open>k\<close> of them) and the
  exponent \<open>n\<close>: plain digits when \<open>k \<le> n \<le> 21\<close>, a decimal point inside when
  \<open>0 < n \<le> 21\<close>, leading zeros when \<open>-6 < n \<le> 0\<close>, and the exponent form otherwise.
\<close>

definition exponent_part :: "int \<Rightarrow> jsstring" where
  "exponent_part e =
     str ''e'' @ (if e < 0 then str ''-'' else str ''+'') @ decimal_digits (nat \<bar>e\<bar>)"

definition Number_toString :: "jsnumber \<Rightarrow> jsstring" where
  "Number_toString x =
     (case x of
        NaN \<Rightarrow> str ''NaN''
      | Infinity neg \<Rightarrow> (if neg then str ''-Infinity'' else str ''Infinity'')
      | Decimal neg s n \<Rightarrow>
          (if s = 0 then str ''0''
           else
             (if neg then str ''-'' else []) @
             (let ds = decimal_digits s; k = int (length ds) in
              if k \<le> n \<and> n \<le> 21 then ds @ replicate (nat (n - k)) 0x30
              else if 0 < n \<and> n \<le> 21 then take (nat n) ds @ str ''.'' @ drop (nat n) ds
              else if - 6 < n \<and> n \<le> 0 then str ''0.'' @ replicate (nat (- n)) 0x30 @ ds
              else if k = 1 then ds @ exponent_part (n - 1)
              else take 1 ds @ str ''.'' @ drop 1 ds @ exponent_part (n - 1))))"

subsection \<open>Values\<close>

text \<open>
  An object is ordinary or an instance of \<^verbatim>\<open>TypeError\<close>, and carries its data properties in
  the order in which the platform enumerates them. A property that is not enumerable
  (or is inherited) is visible to a read by name but not to \<^verbatim>\<open>Object.values\<close> or
  \<^verbatim>\<open>JSON.stringify\<close>. An array carries its elements; a hole reads as \<^verbatim>\<open>undefined\<close>, and
  nothing the function does tells the two apart.
\<close>

datatype objclass = OrdinaryObject | TypeErrorObject

datatype jsval =
    JUndefined
  | JNull
  | JBoolean bool
  | JNumber jsnumber
  | JBigInt int
  | JString jsstring
  | JSymbol
  | JArray "jsval list"
  | JObject objclass "property list"
and property = DataProperty (key: jsstring) (enumerable: bool) (pvalue: jsval)

text \<open>The object literal \<^verbatim>\<open>{k: v, ...}\<close>: an ordinary object, every property enumerable.\<close>

definition object :: "(string \<times> jsval) list \<Rightarrow> jsval" where
  "object kvs = JObject OrdinaryObject (map (\<lambda>(k, v). DataProperty (str k) True v) kvs)"

text \<open>
  What an evaluation can raise. All the exceptions of the operations below are
  \<^verbatim>\<open>TypeError\<close>s. \<open>Unmodelled\<close> marks the few operand shapes that an operation is not
  modelled on (comparing two objects by identity, coercing a user-defined \<^verbatim>\<open>length\<close>);
  a result \<open>Inr v\<close> says that the evaluation met neither.
\<close>

datatype jserror = TypeError | Unmodelled

type_synonym 'a result = "jserror + 'a"

definition then_do :: "'a result \<Rightarrow> ('a \<Rightarrow> 'b result) \<Rightarrow> 'b result" where
  "then_do m f = (case m of Inl e \<Rightarrow> Inl e | Inr v \<Rightarrow> f v)"

subsection \<open>Operators and built-in functions\<close>

fun typeof :: "jsval \<Rightarrow> jsstring" where
  "typeof JUndefined = str ''undefined''"
| "typeof JNull = str ''object''"
| "typeof (JBoolean b) = str ''boolean''"
| "typeof (JNumber n) = str ''number''"
| "typeof (JBigInt i) = str ''bigint''"
| "typeof (JString s) = str ''string''"
| "typeof JSymbol = str ''symbol''"
| "typeof (JArray xs) = str ''object''"
| "typeof (JObject c ps) = str ''object''"

text \<open>Truthiness: the falsy values are undefined, null, false, the zeros, NaN, 0n and the empty string.\<close>

fun ToBoolean :: "jsval \<Rightarrow> bool" where
  "ToBoolean JUndefined = False"
| "ToBoolean JNull = False"
| "ToBoolean (JBoolean b) = b"
| "ToBoolean (JNumber NaN) = False"
| "ToBoolean (JNumber (Infinity neg)) = True"
| "ToBoolean (JNumber (Decimal neg s n)) = (s \<noteq> 0)"
| "ToBoolean (JBigInt i) = (i \<noteq> 0)"
| "ToBoolean (JString s) = (s \<noteq> [])"
| "ToBoolean JSymbol = True"
| "ToBoolean (JArray xs) = True"
| "ToBoolean (JObject c ps) = True"

fun lookup :: "property list \<Rightarrow> jsstring \<Rightarrow> jsval option" where
  "lookup [] k = None"
| "lookup (p # ps) k = (if key p = k then Some (pvalue p) else lookup ps k)"

text \<open>
  Reading a property of a value that is neither null nor undefined, under a name that
  the built-in prototypes of objects, arrays and primitives do not define (the function
  reads \<^verbatim>\<open>response\<close>, \<^verbatim>\<open>request\<close>, \<^verbatim>\<open>status\<close>, \<^verbatim>\<open>data\<close>, \<^verbatim>\<open>message\<close> and \<^verbatim>\<open>detail\<close>): an
  object gives its property of that name, and an instance of \<^verbatim>\<open>TypeError\<close> without one
  inherits the empty \<^verbatim>\<open>message\<close> of \<^verbatim>\<open>Error.prototype\<close>; arrays and primitives have none.
\<close>

fun Get :: "jsval \<Rightarrow> jsstring \<Rightarrow> jsval" where
  "Get (JObject c ps) k =
     (case lookup ps k of
        Some v \<Rightarrow> v
      | None \<Rightarrow> if c = TypeErrorObject \<and> k = str ''message'' then JString [] else JUndefined)"
| "Get _ k = JUndefined"

definition nullish :: "jsval \<Rightarrow> bool" where
  "nullish v \<longleftrightarrow> v = JUndefined \<or> v = JNull"

text \<open>\<^verbatim>\<open>x.k\<close> raises on null and undefined; \<^verbatim>\<open>x?.k\<close> gives undefined there.\<close>

definition member :: "jsval result \<Rightarrow> string \<Rightarrow> jsval result" where
  "member x k = then_do x (\<lambda>v. if nullish v then Inl TypeError else Inr (Get v (str k)))"

definition optional_member :: "jsval result \<Rightarrow> string \<Rightarrow> jsval result" where
  "optional_member x k = then_do x (\<lambda>v. if nullish v then Inr JUndefined else Inr (Get v (str k)))"

text \<open>\<^verbatim>\<open>x[0]\<close>: the first element of an array, the first code unit of a string.\<close>

fun element0_of :: "jsval \<Rightarrow> jsval result" where
  "element0_of JUndefined = Inl TypeError"
| "element0_of JNull = Inl TypeError"
| "element0_of (JArray xs) = Inr (case xs of [] \<Rightarrow> JUndefined | x # _ \<Rightarrow> x)"
| "element0_of (JString s) = Inr (case s of [] \<Rightarrow> JUndefined | c # _ \<Rightarrow> JString [c])"
| "element0_of (JObject c ps) = Inr (case lookup ps (str ''0'') of None \<Rightarrow> JUndefined | Some v \<Rightarrow> v)"
| "element0_of _ = Inr JUndefined"

definition element0 :: "jsval result \<Rightarrow> jsval result" where
  "element0 x = then_do x element0_of"

text \<open>
  \<^verbatim>\<open>x.length > 0\<close>. A primitive other than a string has no \<^verbatim>\<open>length\<close>, and
  \<^verbatim>\<open>undefined > 0\<close> is false; the coercion of an object's own \<^verbatim>\<open>length\<close> is not modelled.
\<close>

fun length_gt_0_of :: "jsval \<Rightarrow> jsval result" where
  "length_gt_0_of JUndefined = Inl TypeError"
| "length_gt_0_of JNull = Inl TypeError"
| "length_gt_0_of (JArray xs) = Inr (JBoolean (0 < length xs))"
| "length_gt_0_of (JString s) = Inr (JBoolean (0 < length s))"
| "length_gt_0_of (JObject c ps) =
     (case lookup ps (str ''length'') of None \<Rightarrow> Inr (JBoolean False) | Some v \<Rightarrow> Inl Unmodelled)"
| "length_gt_0_of _ = Inr (JBoolean False)"

definition length_gt_0 :: "jsval result \<Rightarrow> jsval result" where
  "length_gt_0 x = then_do x length_gt_0_of"

text \<open>
  The method call \<^verbatim>\<open>x.trim()\<close>. Only strings have the method: on every other value the
  call raises (reading a property of null or undefined, or calling what is not a function).
\<close>

fun trim_of :: "jsval \<Rightarrow> jsval result" where
  "trim_of (JString s) = Inr (JString (String_trim s))"
| "trim_of _ = Inl TypeError"

definition call_trim :: "jsval result \<Rightarrow> jsval result" where
  "call_trim x = then_do x trim_of"

definition typeof_op :: "jsval result \<Rightarrow> jsval result" where
  "typeof_op x = then_do x (\<lambda>v. Inr (JString (typeof v)))"

text \<open>
  \<^verbatim>\<open>x === y\<close>: values of different types are different, numbers compare by value, the
  other primitives by content. Two objects (or two symbols) compare by identity, which
  the values do not carry.
\<close>

fun IsStrictlyEqual :: "jsval \<Rightarrow> jsval \<Rightarrow> bool result" where
  "IsStrictlyEqual (JNumber x) (JNumber y) = Inr (Number_equal x y)"
| "IsStrictlyEqual (JArray xs) (JArray ys) = Inl Unmodelled"
| "IsStrictlyEqual (JArray xs) (JObject c ps) = Inl Unmodelled"
| "IsStrictlyEqual (JObject c ps) (JArray ys) = Inl Unmodelled"
| "IsStrictlyEqual (JObject c ps) (JObject d qs) = Inl Unmodelled"
| "IsStrictlyEqual JSymbol JSymbol = Inl Unmodelled"
| "IsStrictlyEqual x y = Inr (x = y)"

definition strict_equals :: "jsval result \<Rightarrow> jsval result \<Rightarrow> jsval result" where
  "strict_equals x y =
     then_do x (\<lambda>v. then_do y (\<lambda>w. then_do (IsStrictlyEqual v w) (\<lambda>b. Inr (JBoolean b))))"

definition strict_not_equals :: "jsval result \<Rightarrow> jsval result \<Rightarrow> jsval result" where
  "strict_not_equals x y =
     then_do x (\<lambda>v. then_do y (\<lambda>w. then_do (IsStrictlyEqual v w) (\<lambda>b. Inr (JBoolean (\<not> b)))))"

text \<open>\<^verbatim>\<open>a && b\<close> gives \<open>a\<close> when it is falsy and evaluates \<open>b\<close> only otherwise; \<^verbatim>\<open>!a\<close>; \<^verbatim>\<open>c ? a : b\<close>.\<close>

definition logical_and :: "jsval result \<Rightarrow> jsval result \<Rightarrow> jsval result" where
  "logical_and a b = then_do a (\<lambda>v. if ToBoolean v then b else Inr v)"

definition logical_not :: "jsval result \<Rightarrow> jsval result" where
  "logical_not a = then_do a (\<lambda>v. Inr (JBoolean (\<not> ToBoolean v)))"

definition conditional :: "jsval result \<Rightarrow> jsval result \<Rightarrow> jsval result \<Rightarrow> jsval result" where
  "conditional c a b = then_do c (\<lambda>v. if ToBoolean v then a else b)"

definition string_literal :: "string \<Rightarrow> jsval result" where
  "string_literal s = Inr (JString (str s))"

definition number_literal :: "nat \<Rightarrow> jsval result" where
  "number_literal n = Inr (JNumber (Number_of_nat n))"

definition null_literal :: "jsval result" where
  "null_literal = Inr JNull"

fun is_array :: "jsval \<Rightarrow> bool" where
  "is_array (JArray xs) = True"
| "is_array _ = False"

definition Array_isArray :: "jsval result \<Rightarrow> jsval result" where
  "Array_isArray x = then_do x (\<lambda>v. Inr (JBoolean (is_array v)))"

text \<open>\<^verbatim>\<open>x instanceof TypeError\<close>: false on every primitive and array, and it never raises.\<close>

fun is_TypeError :: "jsval \<Rightarrow> bool" where
  "is_TypeError (JObject c ps) = (c = TypeErrorObject)"
| "is_TypeError _ = False"

definition instanceof_TypeError :: "jsval result \<Rightarrow> jsval result" where
  "instanceof_TypeError x = then_do x (\<lambda>v. Inr (JBoolean (is_TypeError v)))"

text \<open>
  \<^verbatim>\<open>Object.values(x)\<close>: the values of the own enumerable properties, in enumeration
  order; the elements of an array; the code units of a string; nothing for the other
  primitives; a \<^verbatim>\<open>TypeError\<close> on null and undefined.
\<close>

fun enumerable_values :: "property list \<Rightarrow> jsval list" where
  "enumerable_values [] = []"
| "enumerable_values (p # ps) =
     (if enumerable p then pvalue p # enumerable_values ps else enumerable_values ps)"

fun Object_values_of :: "jsval \<Rightarrow> jsval result" where
  "Object_values_of JUndefined = Inl TypeError"
| "Object_values_of JNull = Inl TypeError"
| "Object_values_of (JObject c ps) = Inr (JArray (enumerable_values ps))"
| "Object_values_of (JArray xs) = Inr (JArray xs)"
| "Object_values_of (JString s) = Inr (JArray (map (\<lambda>c. JString [c]) s))"
| "Object_values_of _ = Inr (JArray [])"

definition Object_values :: "jsval result \<Rightarrow> jsval result" where
  "Object_values x = then_do x Object_values_of"

text \<open>
  \<^verbatim>\<open>xs.flat()\<close>, of depth 1: an element that is an array is replaced by its elements.
  \<^verbatim>\<open>xs.find(f)\<close>: the first element on which \<open>f\<close> gives a truthy value, undefined when
  there is none. Only arrays have the two methods.
\<close>

fun flat_list :: "jsval list \<Rightarrow> jsval list" where
  "flat_list [] = []"
| "flat_list (JArray ys # xs) = ys @ flat_list xs"
| "flat_list (x # xs) = x # flat_list xs"

fun flat_of :: "jsval \<Rightarrow> jsval result" where
  "flat_of (JArray xs) = Inr (JArray (flat_list xs))"
| "flat_of _ = Inl TypeError"

definition call_flat :: "jsval result \<Rightarrow> jsval result" where
  "call_flat x = then_do x flat_of"

fun find_list :: "(jsval \<Rightarrow> jsval result) \<Rightarrow> jsval list \<Rightarrow> jsval result" where
  "find_list f [] = Inr JUndefined"
| "find_list f (x # xs) = then_do (f x) (\<lambda>r. if ToBoolean r then Inr x else find_list f xs)"

fun find_of :: "(jsval \<Rightarrow> jsval result) \<Rightarrow> jsval \<Rightarrow> jsval result" where
  "find_of f (JArray xs) = find_list f xs"
| "find_of f _ = Inl TypeError"

definition call_find :: "jsval result \<Rightarrow> (jsval \<Rightarrow> jsval result) \<Rightarrow> jsval result" where
  "call_find x f = then_do x (find_of f)"

text \<open>
  \<^verbatim>\<open>JSON.stringify(x)\<close> with one argument. A string value or property name is quoted:
  the two-character escapes for backspace, tab, line feed, form feed, carriage return,
  the quotation mark and the reverse solidus, a \<^verbatim>\<open>\u\<close> escape with four lower-case
  hexadecimal digits for the other control characters and for a surrogate that is not
  part of a pair, every other code unit as it is.
\<close>

definition hex_digit :: "nat \<Rightarrow> 16 word" where
  "hex_digit d = (if d < 10 then of_nat (48 + d) else of_nat (87 + d))"

definition UnicodeEscape :: "16 word \<Rightarrow> jsstring" where
  "UnicodeEscape c =
     (let n = unat c in
      [0x5C, 0x75, hex_digit (n div 4096), hex_digit (n div 256 mod 16),
       hex_digit (n div 16 mod 16), hex_digit (n mod 16)])"

definition is_leading_surrogate :: "16 word \<Rightarrow> bool" where
  "is_leading_surrogate c \<longleftrightarrow> 0xD800 \<le> c \<and> c \<le> 0xDBFF"

definition is_trailing_surrogate :: "16 word \<Rightarrow> bool" where
  "is_trailing_surrogate c \<longleftrightarrow> 0xDC00 \<le> c \<and> c \<le> 0xDFFF"

definition quote_unit :: "16 word \<Rightarrow> jsstring" where
  "quote_unit c =
     (if c = 0x08 then [0x5C, 0x62]
      else if c = 0x09 then [0x5C, 0x74]
      else if c = 0x0A then [0x5C, 0x6E]
      else if c = 0x0C then [0x5C, 0x66]
      else if c = 0x0D then [0x5C, 0x72]
      else if c = 0x22 then [0x5C, 0x22]
      else if c = 0x5C then [0x5C, 0x5C]
      else if c < 0x20 \<or> is_leading_surrogate c \<or> is_trailing_surrogate c then UnicodeEscape c
      else [c])"

fun quote_units :: "jsstring \<Rightarrow> jsstring" where
  "quote_units [] = []"
| "quote_units [c] = quote_unit c"
| "quote_units (c # d # ds) =
     (if is_leading_surrogate c \<and> is_trailing_surrogate d then c # d # quote_units ds
      else quote_unit c @ quote_units (d # ds))"

definition QuoteJSONString :: "jsstring \<Rightarrow> jsstring" where
  "QuoteJSONString s = [0x22] @ quote_units s @ [0x22]"

fun join_comma :: "jsstring list \<Rightarrow> jsstring" where
  "join_comma [] = []"
| "join_comma [s] = s"
| "join_comma (s # t # ts) = s @ str '','' @ join_comma (t # ts)"

text \<open>
  The serialisation gives a text, or nothing (\<open>None\<close>) for undefined and for a symbol, or
  raises a \<^verbatim>\<open>TypeError\<close> on a BigInt. An array element without a text is written
  \<^verbatim>\<open>null\<close>, such a property is left out, and so is a property that is not enumerable. A
  number that is not finite is written \<^verbatim>\<open>null\<close>.
\<close>

primrec SerializeJSONProperty :: "jsval \<Rightarrow> jsstring option result"
  and SerializeJSONArray :: "jsval list \<Rightarrow> jsstring list result"
  and serialize_member :: "property \<Rightarrow> jsstring option result"
  and SerializeJSONObject :: "property list \<Rightarrow> jsstring list result" where
  "SerializeJSONProperty JUndefined = Inr None"
| "SerializeJSONProperty JNull = Inr (Some (str ''null''))"
| "SerializeJSONProperty (JBoolean b) = Inr (Some (if b then str ''true'' else str ''false''))"
| "SerializeJSONProperty (JNumber x) =
     Inr (Some (case x of Decimal neg s n \<Rightarrow> Number_toString x | _ \<Rightarrow> str ''null''))"
| "SerializeJSONProperty (JBigInt i) = Inl TypeError"
| "SerializeJSONProperty (JString s) = Inr (Some (QuoteJSONString s))"
| "SerializeJSONProperty JSymbol = Inr None"
| "SerializeJSONProperty (JArray xs) =
     then_do (SerializeJSONArray xs) (\<lambda>ts. Inr (Some (str ''['' @ join_comma ts @ str '']'')))"
| "SerializeJSONProperty (JObject c ps) =
     then_do (SerializeJSONObject ps) (\<lambda>ms. Inr (Some (str ''{'' @ join_comma ms @ str ''}'')))"
| "SerializeJSONArray [] = Inr []"
| "SerializeJSONArray (x # xs) =
     then_do (SerializeJSONProperty x) (\<lambda>t.
     then_do (SerializeJSONArray xs) (\<lambda>ts.
       Inr ((case t of None \<Rightarrow> str ''null'' | Some u \<Rightarrow> u) # ts)))"
| "serialize_member (DataProperty k e v) =
     (if e then
        then_do (SerializeJSONProperty v) (\<lambda>t.
          Inr (case t of None \<Rightarrow> None | Some u \<Rightarrow> Some (QuoteJSONString k @ str '':'' @ u)))
      else Inr None)"
| "SerializeJSONObject [] = Inr []"
| "SerializeJSONObject (p # ps) =
     then_do (serialize_member p) (\<lambda>m.
     then_do (SerializeJSONObject ps) (\<lambda>ms.
       Inr (case m of None \<Rightarrow> ms | Some u \<Rightarrow> u # ms)))"

definition JSON_stringify_of :: "jsval \<Rightarrow> jsval result" where
  "JSON_stringify_of v =
     then_do (SerializeJSONProperty v)
       (\<lambda>t. Inr (case t of None \<Rightarrow> JUndefined | Some u \<Rightarrow> JString u))"

definition JSON_stringify :: "jsval result \<Rightarrow> jsval result" where
  "JSON_stringify x = then_do x JSON_stringify_of"

subsection \<open>Statements\<close>

text \<open>
  A statement completes normally, returns a value from the function, or raises. A block
  runs its statements until one does not complete normally; \<^verbatim>\<open>if (c) s\<close> and
  \<^verbatim>\<open>const x = e; ...\<close> raise what their expression raises. A call gives what the body
  returns, and undefined when the body runs to its end.
\<close>

datatype completion = Normal | Return jsval | Throw jserror

definition var :: "jsval \<Rightarrow> jsval result" where
  "var v = Inr v"

definition if_stmt :: "jsval result \<Rightarrow> completion \<Rightarrow> completion" where
  "if_stmt c body = (case c of Inl e \<Rightarrow> Throw e | Inr v \<Rightarrow> if ToBoolean v then body else Normal)"

definition return_stmt :: "jsval result \<Rightarrow> completion" where
  "return_stmt x = (case x of Inl e \<Rightarrow> Throw e | Inr v \<Rightarrow> Return v)"

definition const_decl :: "jsval result \<Rightarrow> (jsval \<Rightarrow> completion) \<Rightarrow> completion" where
  "const_decl x rest = (case x of Inl e \<Rightarrow> Throw e | Inr v \<Rightarrow> rest v)"

fun block :: "completion list \<Rightarrow> completion" where
  "block [] = Normal"
| "block (s # ss) = (case s of Normal \<Rightarrow> block ss | _ \<Rightarrow> s)"

definition call_result :: "completion \<Rightarrow> jsval result" where
  "call_result c = (case c of Normal \<Rightarrow> Inr JUndefined | Return v \<Rightarrow> Inr v | Throw e \<Rightarrow> Inl e)"

subsection \<open>The function\<close>

text \<open>
  \<^verbatim>\<open>typeof x === "string" && x.trim()\<close>, the test that the source applies to every
  candidate message, written once: \<open>x\<close> is the guarded read (with \<^verbatim>\<open>?.\<close> where the
  source has it) and \<open>y\<close> the read that \<^verbatim>\<open>trim\<close> is called on.
\<close>

definition string_and_trim :: "jsval result \<Rightarrow> jsval result \<Rightarrow> jsval result" where
  "string_and_trim x y =
     logical_and (strict_equals (typeof_op x) (string_literal ''string'')) (call_trim y)"

text \<open>
  Lines 23 to 43, the body of \<^verbatim>\<open>if (typeof data === "object" && data !== null)\<close>:
  \<^verbatim>\<open>
  if (typeof data?.message === "string" && data.message.trim()) return data.message;
  if (typeof data?.detail === "string" && data.detail.trim()) return data.detail;
  if (Array.isArray(data?.message) && data.message.length > 0)
    return typeof data.message[0] === "string" ? data.message[0] : JSON.stringify(data.message[0]);
  if (Array.isArray(data?.detail) && data.detail.length > 0)
    return typeof data.detail[0] === "string" ? data.detail[0] : JSON.stringify(data.detail[0]);
  const fieldError = Object.values(data).flat().find((v) => typeof v === "string" && v.trim());
  if (fieldError) return fieldError as string;
  \<close>
\<close>

definition common_message_fields :: "jsval \<Rightarrow> completion" where
  "common_message_fields data = block
     [if_stmt (string_and_trim (optional_member (var data) ''message'')
                               (member (var data) ''message''))
        (return_stmt (member (var data) ''message'')),
      if_stmt (string_and_trim (optional_member (var data) ''detail'')
                               (member (var data) ''detail''))
        (return_stmt (member (var data) ''detail'')),
      if_stmt (logical_and (Array_isArray (optional_member (var data) ''message''))
                           (length_gt_0 (member (var data) ''message'')))
        (return_stmt
           (conditional
              (strict_equals (typeof_op (element0 (member (var data) ''message'')))
                             (string_literal ''string''))
              (element0 (member (var data) ''message''))
              (JSON_stringify (element0 (member (var data) ''message''))))),
      if_stmt (logical_and (Array_isArray (optional_member (var data) ''detail''))
                           (length_gt_0 (member (var data) ''detail'')))
        (return_stmt
           (conditional
              (strict_equals (typeof_op (element0 (member (var data) ''detail'')))
                             (string_literal ''string''))
              (element0 (member (var data) ''detail''))
              (JSON_stringify (element0 (member (var data) ''detail''))))),
      const_decl
        (call_find (call_flat (Object_values (var data)))
           (\<lambda>v. string_and_trim (var v) (var v)))
        (\<lambda>fieldError. if_stmt (var fieldError) (return_stmt (var fieldError)))]"

text \<open>
  Lines 46 to 53, the fallback by status code:
  \<^verbatim>\<open>
  if (status === 401) return "Unauthorized. Please log in again.";
  if (status === 403) return "You do not have permission to perform this action.";
  if (status === 404) return "Resource not found.";
  if (status === 500) return "A server error occurred. Please try again later.";
  return "An error occurred. Please try again.";
  \<close>
\<close>

definition known_status_codes :: "jsval \<Rightarrow> completion" where
  "known_status_codes status = block
     [if_stmt (strict_equals (var status) (number_literal 401))
        (return_stmt (string_literal ''Unauthorized. Please log in again.'')),
      if_stmt (strict_equals (var status) (number_literal 403))
        (return_stmt (string_literal ''You do not have permission to perform this action.'')),
      if_stmt (strict_equals (var status) (number_literal 404))
        (return_stmt (string_literal ''Resource not found.'')),
      if_stmt (strict_equals (var status) (number_literal 500))
        (return_stmt (string_literal ''A server error occurred. Please try again later.'')),
      return_stmt (string_literal ''An error occurred. Please try again.'')]"

text \<open>
  Lines 11 to 54:
  \<^verbatim>\<open>
  if (error?.response) {
    const status = error.response?.status;
    const data = error.response?.data;
    if (typeof data === "string" && data.trim()) return data;
    if (typeof data === "object" && data !== null) { ... lines 23 to 43 ... }
    ... lines 46 to 53 ...
  }
  \<close>
\<close>

definition axios_error_with_response :: "jsval \<Rightarrow> completion" where
  "axios_error_with_response error =
     if_stmt (optional_member (var error) ''response'')
       (const_decl (optional_member (member (var error) ''response'') ''status'') (\<lambda>status.
        const_decl (optional_member (member (var error) ''response'') ''data'') (\<lambda>data.
        block
          [if_stmt (string_and_trim (var data) (var data)) (return_stmt (var data)),
           if_stmt (logical_and (strict_equals (typeof_op (var data)) (string_literal ''object''))
                                (strict_not_equals (var data) null_literal))
             (common_message_fields data),
           known_status_codes status])))"

text \<open>
  Lines 56 to 59:
  \<^verbatim>\<open>
  if (error?.request && !error?.response)
    return "No response from server. Please check your internet connection.";
  \<close>
\<close>

definition axios_error_with_request :: "jsval \<Rightarrow> completion" where
  "axios_error_with_request error =
     if_stmt (logical_and (optional_member (var error) ''request'')
                          (logical_not (optional_member (var error) ''response'')))
       (return_stmt
          (string_literal ''No response from server. Please check your internet connection.''))"

text \<open>
  Lines 61 to 64:
  \<^verbatim>\<open>
  if (error instanceof TypeError && error?.message === "Failed to fetch")
    return "Network error. Please check your connection.";
  \<close>
\<close>

definition fetch_api_error :: "jsval \<Rightarrow> completion" where
  "fetch_api_error error =
     if_stmt (logical_and (instanceof_TypeError (var error))
                          (strict_equals (optional_member (var error) ''message'')
                                         (string_literal ''Failed to fetch'')))
       (return_stmt (string_literal ''Network error. Please check your connection.''))"

text \<open>
  Lines 66 to 69:
  \<^verbatim>\<open>
  if (typeof error === "string" && error.trim()) return error;
  \<close>
\<close>

definition error_as_string :: "jsval \<Rightarrow> completion" where
  "error_as_string error =
     if_stmt (string_and_trim (var error) (var error)) (return_stmt (var error))"

text \<open>
  Lines 71 to 74:
  \<^verbatim>\<open>
  if (typeof error?.message === "string" && error.message.trim()) return error.message;
  \<close>
\<close>

definition error_with_message_property :: "jsval \<Rightarrow> completion" where
  "error_with_message_property error =
     if_stmt (string_and_trim (optional_member (var error) ''message'')
                              (member (var error) ''message''))
       (return_stmt (member (var error) ''message''))"

text \<open>
  Lines 76 to 84:
  \<^verbatim>\<open>
  if (Array.isArray(error) && error.length > 0) {
    if (typeof error[0] === "string" && error[0].trim()) return error[0];
    if (typeof error[0]?.message === "string" && error[0].message.trim()) return error[0].message;
  }
  \<close>
\<close>

definition error_as_array_of_messages :: "jsval \<Rightarrow> completion" where
  "error_as_array_of_messages error =
     if_stmt (logical_and (Array_isArray (var error)) (length_gt_0 (var error)))
       (block
          [if_stmt (string_and_trim (element0 (var error)) (element0 (var error)))
             (return_stmt (element0 (var error))),
           if_stmt (string_and_trim (optional_member (element0 (var error)) ''message'')
                                    (member (element0 (var error)) ''message''))
             (return_stmt (member (element0 (var error)) ''message''))])"

text \<open>
  Lines 10 to 88: the six statements in their order, and the last line
  \<^verbatim>\<open>return "An unexpected error occurred. Please try again.";\<close>
\<close>

definition handleGenericError :: "jsval \<Rightarrow> jsval result" where
  "handleGenericError error = call_result (block
     [axios_error_with_response error,
      axios_error_with_request error,
      fetch_api_error error,
      error_as_string error,
      error_with_message_property error,
      error_as_array_of_messages error,
      return_stmt (string_literal ''An unexpected error occurred. Please try again.'')])"

subsection \<open>The vocabulary of the specification\<close>

text \<open>
  The specification speaks of the fields an input carries, of non-blank strings, of
  non-empty sequences and of the status of a reply. \<open>field x k\<close> is the value of
  \<^verbatim>\<open>x?.k\<close>; a string is non-blank when one of its code units is not white space.
\<close>

definition field :: "jsval \<Rightarrow> string \<Rightarrow> jsval" where
  "field x k = (if nullish x then JUndefined else Get x (str k))"

fun is_string :: "jsval \<Rightarrow> bool" where
  "is_string (JString s) = True"
| "is_string _ = False"

fun non_blank_string :: "jsval \<Rightarrow> bool" where
  "non_blank_string (JString s) = list_ex (\<lambda>c. \<not> is_whitespace c) s"
| "non_blank_string _ = False"

fun non_null_object :: "jsval \<Rightarrow> bool" where
  "non_null_object (JArray xs) = True"
| "non_null_object (JObject c ps) = True"
| "non_null_object _ = False"

fun non_empty_array :: "jsval \<Rightarrow> bool" where
  "non_empty_array (JArray (x # xs)) = True"
| "non_empty_array _ = False"

fun first_element :: "jsval \<Rightarrow> jsval" where
  "first_element (JArray (x # xs)) = x"
| "first_element _ = JUndefined"

fun has_status :: "jsval \<Rightarrow> nat \<Rightarrow> bool" where
  "has_status (JNumber x) n = Number_equal x (Number_of_nat n)"
| "has_status _ n = False"

text \<open>
  Rule 1.b of the specification. The first element of a sequence is returned as it is
  when it is a string and in its JSON encoding otherwise. The scan goes through the
  field values of the body in enumeration order, through the elements of a value that
  is a sequence, and stops at the first non-blank string.
\<close>

definition first_or_encoded :: "jsval \<Rightarrow> jsval result" where
  "first_or_encoded v =
     (if is_string (first_element v) then Inr (first_element v)
      else JSON_stringify_of (first_element v))"

fun field_values :: "jsval \<Rightarrow> jsval list" where
  "field_values (JObject c ps) = map pvalue (filter enumerable ps)"
| "field_values (JArray xs) = xs"
| "field_values _ = []"

fun one_level :: "jsval \<Rightarrow> jsval list" where
  "one_level (JArray ys) = ys"
| "one_level v = [v]"

definition field_scan :: "jsval \<Rightarrow> jsval option" where
  "field_scan data = find non_blank_string (concat (map one_level (field_values data)))"

definition rule_1b :: "jsval \<Rightarrow> jsval result option" where
  "rule_1b data =
     (if non_blank_string (field data ''message'') then Some (Inr (field data ''message''))
      else if non_blank_string (field data ''detail'') then Some (Inr (field data ''detail''))
      else if non_empty_array (field data ''message'')
        then Some (first_or_encoded (field data ''message''))
      else if non_empty_array (field data ''detail'')
        then Some (first_or_encoded (field data ''detail''))
      else map_option Inr (field_scan data))"

text \<open>Rule 1.c: the message for a status.\<close>

definition status_message :: "jsval \<Rightarrow> string" where
  "status_message status =
     (if has_status status 401 then ''Unauthorized. Please log in again.''
      else if has_status status 403 then ''You do not have permission to perform this action.''
      else if has_status status 404 then ''Resource not found.''
      else if has_status status 500 then ''A server error occurred. Please try again later.''
      else ''An error occurred. Please try again.'')"

text \<open>
  The resolution order of the specification: rule 1 for an input with a reply, from its
  status and its body, and the seven rules in their order.
\<close>

definition rule_1 :: "jsval \<Rightarrow> jsval \<Rightarrow> jsval result" where
  "rule_1 status data =
     (if non_blank_string data then Inr data
      else case (if non_null_object data then rule_1b data else None) of
             Some r \<Rightarrow> r
           | None \<Rightarrow> Inr (JString (str (status_message status))))"

definition resolution :: "jsval \<Rightarrow> jsval result" where
  "resolution e =
     (if ToBoolean (field e ''response'')
        then rule_1 (field (field e ''response'') ''status'') (field (field e ''response'') ''data'')
      else if ToBoolean (field e ''request'')
        then Inr (JString (str ''No response from server. Please check your internet connection.''))
      else if is_TypeError e \<and> field e ''message'' = JString (str ''Failed to fetch'')
        then Inr (JString (str ''Network error. Please check your connection.''))
      else if non_blank_string e then Inr e
      else if non_blank_string (field e ''message'') then Inr (field e ''message'')
      else if non_empty_array e \<and> non_blank_string (first_element e) then Inr (first_element e)
      else if non_empty_array e \<and> non_blank_string (field (first_element e) ''message'')
        then Inr (field (first_element e) ''message'')
      else Inr (JString (str ''An unexpected error occurred. Please try again.'')))"

text \<open>
  Whether a BigInt is among what \<^verbatim>\<open>JSON.stringify\<close> serialises of a value: the value
  itself, the elements of an array and the enumerable properties of an object, at any
  depth.
\<close>

primrec serialises_bigint :: "jsval \<Rightarrow> bool"
  and serialises_bigint_list :: "jsval list \<Rightarrow> bool"
  and serialises_bigint_property :: "property \<Rightarrow> bool"
  and serialises_bigint_properties :: "property list \<Rightarrow> bool" where
  "serialises_bigint JUndefined = False"
| "serialises_bigint JNull = False"
| "serialises_bigint (JBoolean b) = False"
| "serialises_bigint (JNumber x) = False"
| "serialises_bigint (JBigInt i) = True"
| "serialises_bigint (JString s) = False"
| "serialises_bigint JSymbol = False"
| "serialises_bigint (JArray xs) = serialises_bigint_list xs"
| "serialises_bigint (JObject c ps) = serialises_bigint_properties ps"
| "serialises_bigint_list [] = False"
| "serialises_bigint_list (x # xs) = (serialises_bigint x \<or> serialises_bigint_list xs)"
| "serialises_bigint_property (DataProperty k e v) = (e \<and> serialises_bigint v)"
| "serialises_bigint_properties [] = False"
| "serialises_bigint_properties (p # ps) =
     (serialises_bigint_property p \<or> serialises_bigint_properties ps)"

section \<open>Evaluating expressions and statements\<close>

text \<open>
  What the operators give on values, and what the tests of the source come down to:
  \<^verbatim>\<open>typeof x === "string" && x.trim()\<close> is truthy exactly on the non-blank strings, and
  \<^verbatim>\<open>Array.isArray(x) && x.length > 0\<close> exactly on the non-empty arrays. The guarded read
  \<^verbatim>\<open>x?.k\<close> makes the second, unguarded read \<^verbatim>\<open>x.k\<close> safe wherever the source writes the two.
\<close>

lemma then_do_Inl [simp]: "then_do (Inl e) f = Inl e"
  by (simp add: then_do_def)

lemma then_do_Inr [simp]: "then_do (Inr v) f = f v"
  by (simp add: then_do_def)

lemma IsStrictlyEqual_string: "IsStrictlyEqual v (JString s) = Inr (v = JString s)"
  by (cases v) simp_all

lemma IsStrictlyEqual_number: "IsStrictlyEqual v (JNumber (Number_of_nat n)) = Inr (has_status v n)"
  by (cases v) simp_all



lemma all_dropWhile: "(\<forall>x\<in>set (dropWhile P xs). P x) = (\<forall>x\<in>set xs. P x)"
  by (induction xs) auto

lemma String_trim_nonempty: "(String_trim s \<noteq> []) = list_ex (\<lambda>c. \<not> is_whitespace c) s"
  by (simp add: String_trim_def dropWhile_eq_Nil_conv all_dropWhile list_ex_iff)

lemma string_and_trim_value:
  assumes "is_string v \<Longrightarrow> y = Inr v"
  shows "string_and_trim (Inr v) y =
           Inr (case v of JString s \<Rightarrow> JString (String_trim s) | _ \<Rightarrow> JBoolean False)"
  using assms
  by (cases v)
     (simp_all add: string_and_trim_def logical_and_def strict_equals_def typeof_op_def
        string_literal_def IsStrictlyEqual_string call_trim_def str_def)

lemma if_string_and_trim:
  assumes "is_string v \<Longrightarrow> y = Inr v"
  shows "if_stmt (string_and_trim (Inr v) y) body = (if non_blank_string v then body else Normal)"
proof -
  have "string_and_trim (Inr v) y =
          Inr (case v of JString s \<Rightarrow> JString (String_trim s) | _ \<Rightarrow> JBoolean False)"
    by (rule string_and_trim_value [OF assms])
  then show ?thesis
    by (cases v) (simp_all add: if_stmt_def String_trim_nonempty)
qed

lemma optional_member_var: "optional_member (Inr x) k = Inr (field x k)"
  by (simp add: optional_member_def field_def)

lemma member_var: "member (Inr x) k = (if nullish x then Inl TypeError else Inr (field x k))"
  by (simp add: member_def field_def)

lemma field_nullish: "nullish x \<Longrightarrow> field x k = JUndefined"
  by (simp add: field_def)

lemma field_array: "field (JArray xs) k = JUndefined"
  by (simp add: field_def)

lemma field_primitive:
  "field JUndefined k = JUndefined" "field JNull k = JUndefined"
  "field (JBoolean b) k = JUndefined" "field (JNumber x) k = JUndefined"
  "field (JString s) k = JUndefined"
  by (simp_all add: field_def)

lemma truthy_not_nullish: "ToBoolean (field e k) \<Longrightarrow> \<not> nullish e"
  by (cases "nullish e") (simp_all add: field_nullish)

lemma non_blank_not_nullish: "non_blank_string (field d k) \<Longrightarrow> \<not> nullish d"
  by (cases "nullish d") (simp_all add: field_nullish)

lemma non_null_object_not_nullish: "non_null_object d \<Longrightarrow> \<not> nullish d"
  by (cases d) (simp_all add: nullish_def)

lemma non_null_object_blank: "non_null_object v \<Longrightarrow> \<not> non_blank_string v"
  by (cases v) simp_all

lemma non_blank_truthy: "non_blank_string v \<Longrightarrow> ToBoolean v"
  by (cases v) (auto simp: list_ex_iff)

lemma if_message:
  "if_stmt (string_and_trim (optional_member (Inr d) k) (member (Inr d) k)) body =
     (if non_blank_string (field d k) then body else Normal)"
proof -
  have "is_string (field d k) \<Longrightarrow> member (Inr d) k = Inr (field d k)"
    by (cases "nullish d") (simp_all add: member_var field_nullish)
  then show ?thesis
    by (simp add: optional_member_var if_string_and_trim)
qed

lemma if_var: "if_stmt (string_and_trim (Inr v) (Inr v)) body =
     (if non_blank_string v then body else Normal)"
  by (simp add: if_string_and_trim)

lemma if_array:
  "if_stmt (logical_and (Array_isArray (Inr v)) (length_gt_0 (Inr v))) body =
     (if non_empty_array v then body else Normal)"
  by (cases v rule: non_empty_array.cases)
     (simp_all add: Array_isArray_def logical_and_def if_stmt_def length_gt_0_def)

lemma if_object:
  "if_stmt (logical_and (strict_equals (typeof_op (Inr v)) (string_literal ''object''))
                        (strict_not_equals (Inr v) null_literal)) body =
     (if non_null_object v then body else Normal)"
  by (cases v)
     (simp_all add: logical_and_def strict_equals_def strict_not_equals_def typeof_op_def
        string_literal_def null_literal_def IsStrictlyEqual_string if_stmt_def str_def)

lemma if_stmt_Inr: "if_stmt (Inr v) body = (if ToBoolean v then body else Normal)"
  by (simp add: if_stmt_def)

lemma const_decl_Inr: "const_decl (Inr v) rest = rest v"
  by (simp add: const_decl_def)

lemma after_return:
  "(case return_stmt r of Normal \<Rightarrow> x | Return v \<Rightarrow> y | Throw e \<Rightarrow> y) = y"
  by (cases r) (simp_all add: return_stmt_def)

lemma return_member: "\<not> nullish d \<Longrightarrow> return_stmt (member (Inr d) k) = Return (field d k)"
  by (simp add: member_var return_stmt_def)

lemma return_stmt_Inr: "return_stmt (Inr v) = Return v"
  by (simp add: return_stmt_def)

lemma first_or_json:
  assumes "non_empty_array v"
  shows "conditional
           (strict_equals (typeof_op (element0 (Inr v))) (string_literal ''string''))
           (element0 (Inr v))
           (JSON_stringify (element0 (Inr v))) = first_or_encoded v"
proof -
  obtain x xs where v: "v = JArray (x # xs)"
    using assms by (cases v rule: non_empty_array.cases) simp_all
  show ?thesis
    unfolding v
    by (cases x)
       (simp_all add: conditional_def strict_equals_def typeof_op_def string_literal_def
          element0_def IsStrictlyEqual_string JSON_stringify_def first_or_encoded_def str_def)
qed

subsection \<open>The scan of the field values\<close>

lemma flat_list_concat: "flat_list xs = concat (map one_level xs)"
  by (induction xs rule: flat_list.induct) simp_all

lemma enumerable_values_filter: "enumerable_values ps = map pvalue (filter enumerable ps)"
  by (induction ps) simp_all

lemma string_and_trim_truthy:
  "string_and_trim (Inr v) (Inr v) = Inr r \<Longrightarrow> ToBoolean r = non_blank_string v"
  by (cases v) (auto simp: string_and_trim_value String_trim_nonempty)

lemma find_list_scan:
  "find_list (\<lambda>v. string_and_trim (Inr v) (Inr v)) xs =
     Inr (case find non_blank_string xs of Some v \<Rightarrow> v | None \<Rightarrow> JUndefined)"
proof (induction xs)
  case Nil
  show ?case by simp
next
  case (Cons x xs)
  obtain r where r: "string_and_trim (Inr x) (Inr x) = Inr r"
    by (simp add: string_and_trim_value)
  then have "ToBoolean r = non_blank_string x"
    by (rule string_and_trim_truthy)
  with r Cons show ?case by simp
qed

lemma scan_values:
  assumes "non_null_object d"
  shows "call_find (call_flat (Object_values (Inr d))) (\<lambda>v. string_and_trim (Inr v) (Inr v)) =
           Inr (case field_scan d of Some v \<Rightarrow> v | None \<Rightarrow> JUndefined)"
  using assms
  by (cases d rule: non_null_object.cases)
     (simp_all add: Object_values_def call_flat_def call_find_def find_list_scan
        flat_list_concat enumerable_values_filter field_scan_def)

lemma field_scan_non_blank: "field_scan d = Some v \<Longrightarrow> non_blank_string v"
  by (auto simp: field_scan_def find_Some_iff)

lemma scan_statement:
  assumes "non_null_object d"
  shows "const_decl
           (call_find (call_flat (Object_values (Inr d))) (\<lambda>v. string_and_trim (Inr v) (Inr v)))
           (\<lambda>fieldError. if_stmt (Inr fieldError) (Return fieldError)) =
         (case field_scan d of Some v \<Rightarrow> Return v | None \<Rightarrow> Normal)"
proof (cases "field_scan d")
  case None
  then show ?thesis
    by (simp add: scan_values [OF assms] const_decl_def if_stmt_def)
next
  case (Some v)
  then have "ToBoolean v"
    by (simp add: field_scan_non_blank non_blank_truthy)
  with Some show ?thesis
    by (simp add: scan_values [OF assms] const_decl_def if_stmt_def)
qed

section \<open>The function follows the resolution order\<close>

text \<open>
  Each statement of the function is one rule of the specification, and the function as a
  whole computes \<open>resolution\<close>: no read of the function raises, and the one call that can
  raise is \<^verbatim>\<open>JSON.stringify\<close>.
\<close>

lemma common_message_fields_rule_1b:
  assumes "non_null_object d"
  shows "common_message_fields d = (case rule_1b d of Some r \<Rightarrow> return_stmt r | None \<Rightarrow> Normal)"
proof -
  have n: "\<not> nullish d"
    using assms by (rule non_null_object_not_nullish)
  show ?thesis
    unfolding common_message_fields_def var_def
    by (cases "field_scan d")
       (simp_all add: optional_member_var member_var n if_var if_array first_or_json
          return_stmt_Inr after_return scan_statement [OF assms] rule_1b_def cong: if_cong)
qed

lemma known_status_codes_message:
  "known_status_codes st = Return (JString (str (status_message st)))"
  by (simp add: known_status_codes_def strict_equals_def var_def number_literal_def
       IsStrictlyEqual_number if_stmt_def return_stmt_Inr string_literal_def status_message_def)

lemma response_body:
  "block
     [if_stmt (string_and_trim (Inr data) (Inr data)) (return_stmt (Inr data)),
      if_stmt (logical_and (strict_equals (typeof_op (Inr data)) (string_literal ''object''))
                           (strict_not_equals (Inr data) null_literal))
        (common_message_fields data),
      known_status_codes status] = return_stmt (rule_1 status data)"
proof (cases "non_null_object data")
  case True
  then have "\<not> non_blank_string data"
    by (cases data) simp_all
  with True show ?thesis
    by (cases "rule_1b data")
       (simp_all add: if_var if_object common_message_fields_rule_1b known_status_codes_message
          rule_1_def return_stmt_Inr after_return)
next
  case False
  then show ?thesis
    by (simp add: if_var if_object known_status_codes_message rule_1_def return_stmt_Inr)
qed

lemma axios_error_with_response_rule_1:
  "axios_error_with_response e =
     (if ToBoolean (field e ''response'')
      then return_stmt (rule_1 (field (field e ''response'') ''status'')
                               (field (field e ''response'') ''data''))
      else Normal)"
proof (cases "ToBoolean (field e ''response'')")
  case True
  then have "\<not> nullish e"
    by (rule truthy_not_nullish)
  with True show ?thesis
    unfolding axios_error_with_response_def var_def
    by (simp add: optional_member_var member_var if_stmt_Inr const_decl_Inr response_body
          del: block.simps)
next
  case False
  then show ?thesis
    by (simp add: axios_error_with_response_def var_def optional_member_var if_stmt_Inr)
qed

lemma axios_error_with_request_rule_2:
  "axios_error_with_request e =
     (if ToBoolean (field e ''request'') \<and> \<not> ToBoolean (field e ''response'')
      then Return (JString (str ''No response from server. Please check your internet connection.''))
      else Normal)"
  by (simp add: axios_error_with_request_def var_def optional_member_var logical_and_def
       logical_not_def if_stmt_def return_stmt_Inr string_literal_def)

lemma fetch_api_error_rule_3:
  "fetch_api_error e =
     (if is_TypeError e \<and> field e ''message'' = JString (str ''Failed to fetch'')
      then Return (JString (str ''Network error. Please check your connection.''))
      else Normal)"
  by (simp add: fetch_api_error_def var_def optional_member_var logical_and_def
       instanceof_TypeError_def strict_equals_def IsStrictlyEqual_string if_stmt_def
       return_stmt_Inr string_literal_def)

lemma error_as_string_rule_4:
  "error_as_string e = (if non_blank_string e then Return e else Normal)"
  by (simp add: error_as_string_def var_def if_var return_stmt_Inr)

lemma error_with_message_property_rule_5:
  "error_with_message_property e =
     (if non_blank_string (field e ''message'') then Return (field e ''message'') else Normal)"
proof (cases "non_blank_string (field e ''message'')")
  case True
  then have "\<not> nullish e"
    by (rule non_blank_not_nullish)
  with True show ?thesis
    by (simp add: error_with_message_property_def var_def if_message return_member)
next
  case False
  then show ?thesis
    by (simp add: error_with_message_property_def var_def if_message)
qed

lemma error_as_array_of_messages_rule_6:
  "error_as_array_of_messages e =
     (if non_empty_array e \<and> non_blank_string (first_element e) then Return (first_element e)
      else if non_empty_array e \<and> non_blank_string (field (first_element e) ''message'')
        then Return (field (first_element e) ''message'')
      else Normal)"
proof (cases "non_empty_array e")
  case True
  then obtain x xs where e: "e = JArray (x # xs)"
    by (cases e rule: non_empty_array.cases) simp_all
  have x: "element0 (Inr e) = Inr x"
    by (simp add: e element0_def)
  have m: "non_blank_string (field x ''message'') \<Longrightarrow> member (Inr x) ''message'' = Inr (field x ''message'')"
    by (simp add: member_var non_blank_not_nullish)
  show ?thesis
    unfolding error_as_array_of_messages_def var_def x
    using m
    by (simp add: if_array if_var if_message return_stmt_Inr e)
next
  case False
  then show ?thesis
    by (simp add: error_as_array_of_messages_def var_def if_array)
qed

lemma handleGenericError_resolution: "handleGenericError e = resolution e"
proof -
  have r: "(case return_stmt x of Normal \<Rightarrow> Inr JUndefined | Return v \<Rightarrow> Inr v | Throw e \<Rightarrow> Inl e) = x"
    for x
    by (cases x) (simp_all add: return_stmt_def)
  show ?thesis
    unfolding handleGenericError_def axios_error_with_response_rule_1
      axios_error_with_request_rule_2 fetch_api_error_rule_3 error_as_string_rule_4
      error_with_message_property_rule_5 error_as_array_of_messages_rule_6
    by (simp add: resolution_def r after_return return_stmt_Inr call_result_def string_literal_def)
qed

subsection \<open>JSON encoding and BigInt\<close>

text \<open>
  The encoding raises exactly when it comes to a BigInt, and what it raises is a
  \<^verbatim>\<open>TypeError\<close>.
\<close>

lemma serialize_bigint_all:
  "((serialises_bigint v \<longrightarrow> SerializeJSONProperty v = Inl TypeError) \<and>
    (\<not> serialises_bigint v \<longrightarrow> (\<exists>t. SerializeJSONProperty v = Inr t))) \<and>
   ((serialises_bigint_property p \<longrightarrow> serialize_member p = Inl TypeError) \<and>
    (\<not> serialises_bigint_property p \<longrightarrow> (\<exists>t. serialize_member p = Inr t))) \<and>
   ((serialises_bigint_list xs \<longrightarrow> SerializeJSONArray xs = Inl TypeError) \<and>
    (\<not> serialises_bigint_list xs \<longrightarrow> (\<exists>ts. SerializeJSONArray xs = Inr ts))) \<and>
   ((serialises_bigint_properties ps \<longrightarrow> SerializeJSONObject ps = Inl TypeError) \<and>
    (\<not> serialises_bigint_properties ps \<longrightarrow> (\<exists>ts. SerializeJSONObject ps = Inr ts)))"
  by (rule serialises_bigint_serialises_bigint_list_serialises_bigint_property_serialises_bigint_properties.induct)
     (auto simp: then_do_def split: sum.splits)

lemma serialize_bigint:
  "serialises_bigint v \<Longrightarrow> SerializeJSONProperty v = Inl TypeError"
  "\<not> serialises_bigint v \<Longrightarrow> \<exists>t. SerializeJSONProperty v = Inr t"
  using serialize_bigint_all [of v] by blast+

lemma first_or_encoded_bigint:
  "serialises_bigint (first_element v) \<Longrightarrow> first_or_encoded v = Inl TypeError"
  "\<not> serialises_bigint (first_element v) \<Longrightarrow> \<exists>r. first_or_encoded v = Inr r"
proof -
  assume "serialises_bigint (first_element v)"
  moreover from this have "\<not> is_string (first_element v)"
    by (cases "first_element v") simp_all
  ultimately show "first_or_encoded v = Inl TypeError"
    by (simp add: first_or_encoded_def JSON_stringify_of_def serialize_bigint(1))
next
  assume "\<not> serialises_bigint (first_element v)"
  then obtain t where "SerializeJSONProperty (first_element v) = Inr t"
    using serialize_bigint(2) by blast
  then show "\<exists>r. first_or_encoded v = Inr r"
    by (simp add: first_or_encoded_def JSON_stringify_of_def)
qed

lemma first_element_not_array: "\<not> non_empty_array v \<Longrightarrow> first_element v = JUndefined"
  by (cases v rule: first_element.cases) simp_all


section \<open>The claims\<close>

subsection \<open>C1: the function never raises\<close>

text \<open>
  Claim C1 as it is stated, for every input value of any shape, fails on the input
  \<^verbatim>\<open>{response: {data: {message: [1n]}}}\<close>: \<^verbatim>\<open>data.message\<close> is a non-empty array, its
  first element is not a string, and \<^verbatim>\<open>JSON.stringify\<close> raises a \<^verbatim>\<open>TypeError\<close> on a BigInt.
  Nothing in the function catches it.
\<close>

theorem raises_on_bigint:
  "handleGenericError
     (object [(''response'', object [(''data'', object [(''message'', JArray [JBigInt 1])])])]) =
   Inl TypeError"
  by code_simp

text \<open>
  Claim C1, amended. On the values of the model (primitives, arrays and objects with
  data properties, nested to a finite depth) \<open>handleGenericError\<close> returns a result and
  raises nothing, with one exception, and there it raises a \<^verbatim>\<open>TypeError\<close>: the input
  carries a truthy \<^verbatim>\<open>response\<close> whose \<^verbatim>\<open>data\<close> is a non-null object, neither
  \<^verbatim>\<open>data.message\<close> nor \<^verbatim>\<open>data.detail\<close> is a non-blank string, and a BigInt is among
  what \<^verbatim>\<open>JSON.stringify\<close> serialises of the first element of \<^verbatim>\<open>data.message\<close> when that
  is a non-empty array, of the first element of \<^verbatim>\<open>data.detail\<close> otherwise. A BigInt
  anywhere else in the input does no harm. The result \<open>Inr v\<close> also says that no read
  met null or undefined without its guard and that no method was called on a value that
  does not have it.
\<close>

theorem raises_exactly_on_encoded_bigint:
  "let data = field (field e ''response'') ''data'';
       message = field data ''message'';
       detail = field data ''detail'';
       reached = (ToBoolean (field e ''response'') \<and> non_null_object data \<and>
                  \<not> non_blank_string message \<and> \<not> non_blank_string detail);
       element = (if non_empty_array message then first_element message
                  else first_element detail)
   in if reached \<and> serialises_bigint element
      then handleGenericError e = Inl TypeError
      else (\<exists>v. handleGenericError e = Inr v)"
proof -
  let ?data = "field (field e ''response'') ''data''"
  let ?message = "field ?data ''message''"
  let ?detail = "field ?data ''detail''"
  have u: "\<not> serialises_bigint JUndefined" by simp
  show ?thesis
  proof (cases "ToBoolean (field e ''response'') \<and> non_null_object ?data \<and>
                \<not> non_blank_string ?message \<and> \<not> non_blank_string ?detail")
    case False
    then show ?thesis
      by (auto simp: Let_def handleGenericError_resolution resolution_def rule_1_def
            rule_1b_def split: option.splits)
  next
    case True
    then have d: "\<not> non_blank_string ?data"
      by (simp add: non_null_object_blank)
    show ?thesis
    proof (cases "non_empty_array ?message")
      case m: True
      with True d have "handleGenericError e = first_or_encoded ?message"
        by (simp add: handleGenericError_resolution resolution_def rule_1_def rule_1b_def)
      with True m show ?thesis
        using first_or_encoded_bigint [of ?message] by (auto simp: Let_def)
    next
      case m: False
      show ?thesis
      proof (cases "non_empty_array ?detail")
        case n: True
        with True d m have "handleGenericError e = first_or_encoded ?detail"
          by (simp add: handleGenericError_resolution resolution_def rule_1_def rule_1b_def)
        with True m show ?thesis
          using first_or_encoded_bigint [of ?detail] by (auto simp: Let_def)
      next
        case n: False
        then have "first_element ?detail = JUndefined"
          by (rule first_element_not_array)
        moreover from True d m n have "\<exists>v. handleGenericError e = Inr v"
          by (auto simp: handleGenericError_resolution resolution_def rule_1_def rule_1b_def
                split: option.splits)
        ultimately show ?thesis
          using m by (simp add: Let_def)
      qed
    qed
  qed
qed

theorem raises_exactly_on_encoded_bigint_witness:
  "non_blank_string
     (field (field (field
        (object [(''response'', object [(''data'',
           object [(''message'', JString (str ''Boom'')), (''detail'', JArray [JBigInt 1])])]),
                 (''count'', JBigInt 10)]) ''response'') ''data'') ''message'') \<and>
   (\<exists>v. handleGenericError
          (object [(''response'', object [(''data'',
             object [(''message'', JString (str ''Boom'')), (''detail'', JArray [JBigInt 1])])]),
                   (''count'', JBigInt 10)]) = Inr v)"
proof -
  let ?e = "object [(''response'', object [(''data'',
        object [(''message'', JString (str ''Boom'')), (''detail'', JArray [JBigInt 1])])]),
              (''count'', JBigInt 10)]"
  have 1: "non_blank_string (field (field (field ?e ''response'') ''data'') ''message'')"
    by code_simp
  from raises_exactly_on_encoded_bigint [of ?e] 1
  have "\<exists>v. handleGenericError ?e = Inr v"
    by (simp add: Let_def)
  with 1 show ?thesis ..
qed

subsection \<open>C2: the result is a non-empty string\<close>

text \<open>
  Claim C2 says that the result is always a string of length greater than 0. On the
  reply body \<^verbatim>\<open>{message: [""]}\<close> the function returns the empty string: lines 31 to 36
  return the first element of the array as it is, without the \<^verbatim>\<open>trim\<close> test that every
  other branch applies to its candidate (lines 78 to 80 apply it to the first element of
  an array input).
\<close>

theorem returns_empty_string:
  "handleGenericError
     (object [(''response'',
        object [(''status'', JNumber (Number_of_nat 400)),
                (''data'', object [(''message'', JArray [JString []])])])]) =
   Inr (JString [])"
  by code_simp

subsection \<open>C3: the message of a reply body\<close>



subsection \<open>C4: the fallback by status\<close>

text \<open>
  Claim C4. For every input that carries a response whose body gives no message (the
  body is not a non-blank string, and when it is a non-null object rule 1.b finds
  nothing in it), the status alone decides the result: the messages for 401, 403, 404
  and 500, and the generic message for any other status and for none.
\<close>

theorem status_fallback:
  assumes "ToBoolean (field e ''response'')"
    and "\<not> non_blank_string (field (field e ''response'') ''data'')"
    and "non_null_object (field (field e ''response'') ''data'') \<longrightarrow>
           (let data = field (field e ''response'') ''data'' in
            \<not> non_blank_string (field data ''message'') \<and>
            \<not> non_blank_string (field data ''detail'') \<and>
            \<not> non_empty_array (field data ''message'') \<and>
            \<not> non_empty_array (field data ''detail'') \<and>
            field_scan data = None)"
  shows "let status = field (field e ''response'') ''status'' in
         handleGenericError e = Inr (JString (str
           (if has_status status 401 then ''Unauthorized. Please log in again.''
            else if has_status status 403
              then ''You do not have permission to perform this action.''
            else if has_status status 404 then ''Resource not found.''
            else if has_status status 500
              then ''A server error occurred. Please try again later.''
            else ''An error occurred. Please try again.'')))"
  using assms
  by (simp add: Let_def handleGenericError_resolution resolution_def rule_1_def rule_1b_def
        status_message_def)

theorem status_fallback_witness:
  "ToBoolean (field (object [(''response'', object [(''status'', JNumber (Number_of_nat 404)),
      (''data'', object [])])]) ''response'') \<and>
   handleGenericError (object [(''response'', object [(''status'', JNumber (Number_of_nat 404)),
      (''data'', object [])])]) = Inr (JString (str ''Resource not found.''))"
proof -
  let ?e = "object [(''response'', object [(''status'', JNumber (Number_of_nat 404)),
      (''data'', object [])])]"
  let ?data = "field (field ?e ''response'') ''data''"
  let ?status = "field (field ?e ''response'') ''status''"
  have h: "ToBoolean (field ?e ''response'')" by code_simp
  have 1: "\<not> non_blank_string ?data" by code_simp
  have 2: "non_null_object ?data \<longrightarrow>
             (let data = ?data in
              \<not> non_blank_string (field data ''message'') \<and>
              \<not> non_blank_string (field data ''detail'') \<and>
              \<not> non_empty_array (field data ''message'') \<and>
              \<not> non_empty_array (field data ''detail'') \<and>
              field_scan data = None)"
    by code_simp
  have 3: "\<not> has_status ?status 401" by code_simp
  have 4: "\<not> has_status ?status 403" by code_simp
  have 5: "has_status ?status 404" by code_simp
  from status_fallback [OF h 1 2] 3 4 5
  have "handleGenericError ?e = Inr (JString (str ''Resource not found.''))"
    unfolding Let_def by simp
  with h show ?thesis ..
qed

subsection \<open>C5: a request without a response\<close>

text \<open>
  Claim C5. For every input that carries a request and no response (both tests of the
  source, \<^verbatim>\<open>error?.request && !error?.response\<close>, are tests of truthiness), the result is
  exactly the message that the server did not respond.
\<close>

theorem no_response:
  assumes "ToBoolean (field e ''request'')" and "\<not> ToBoolean (field e ''response'')"
  shows "handleGenericError e =
           Inr (JString (str ''No response from server. Please check your internet connection.''))"
  using assms by (simp add: handleGenericError_resolution resolution_def)

theorem no_response_witness:
  "ToBoolean (field (object [(''request'', object []), (''response'', JUndefined)]) ''request'') \<and>
   \<not> ToBoolean (field (object [(''request'', object []), (''response'', JUndefined)]) ''response'') \<and>
   handleGenericError (object [(''request'', object []), (''response'', JUndefined)]) =
     Inr (JString (str ''No response from server. Please check your internet connection.''))"
proof -
  let ?e = "object [(''request'', object []), (''response'', JUndefined)]"
  have 1: "ToBoolean (field ?e ''request'')" by code_simp
  have 2: "\<not> ToBoolean (field ?e ''response'')" by code_simp
  from 1 2 no_response [OF 1 2] show ?thesis by blast
qed

subsection \<open>C6: only the first element of an array\<close>

text \<open>
  Claim C6. For every input that is a non-empty array, element 0 alone decides: it is
  the result when it is a non-blank string, its \<^verbatim>\<open>message\<close> is when that is a non-blank
  string, and the result is the generic message otherwise; the elements after the first
  never change the result. (An array has none of the fields \<^verbatim>\<open>response\<close>, \<^verbatim>\<open>request\<close> and
  \<^verbatim>\<open>message\<close>, so no earlier rule applies to it.)
\<close>

theorem first_element_only:
  "handleGenericError (JArray (x # xs)) =
     Inr (if non_blank_string x then x
          else if non_blank_string (field x ''message'') then field x ''message''
          else JString (str ''An unexpected error occurred. Please try again.''))
   \<and> handleGenericError (JArray (x # xs)) = handleGenericError (JArray (x # ys))"
  by (simp add: handleGenericError_resolution resolution_def field_array)

theorem first_element_only_witness:
  "handleGenericError (JArray [object [(''message'', JString (str ''First error''))],
                               object [(''message'', JString (str ''Second error''))]]) =
     Inr (JString (str ''First error'')) \<and>
   handleGenericError (JArray [object [(''message'', JString (str ''First error''))],
                               object [(''message'', JString (str ''Second error''))]]) =
     handleGenericError (JArray [object [(''message'', JString (str ''First error''))]])"
proof -
  let ?x = "object [(''message'', JString (str ''First error''))]"
  have 1: "\<not> non_blank_string ?x" by code_simp
  have 2: "non_blank_string (field ?x ''message'')" by code_simp
  have 3: "field ?x ''message'' = JString (str ''First error'')" by code_simp
  note t = first_element_only [of ?x "[object [(''message'', JString (str ''Second error''))]]" "[]"]
  from t [THEN conjunct1] 1 2 3
  have a: "handleGenericError (JArray [?x, object [(''message'', JString (str ''Second error''))]]) =
             Inr (JString (str ''First error''))"
    by simp
  from a t [THEN conjunct2] show ?thesis ..
qed

subsection \<open>C7: with a response, nothing outside it matters\<close>

text \<open>
  Claim C7. Two inputs that both carry a truthy \<^verbatim>\<open>response\<close> and agree on
  \<^verbatim>\<open>response.status\<close> and \<^verbatim>\<open>response.data\<close> give the same result: no field outside
  \<^verbatim>\<open>response\<close>, and no other field of it, has any influence.
\<close>

theorem response_decides:
  assumes "ToBoolean (field e1 ''response'')" and "ToBoolean (field e2 ''response'')"
    and "field (field e1 ''response'') ''status'' = field (field e2 ''response'') ''status''"
    and "field (field e1 ''response'') ''data'' = field (field e2 ''response'') ''data''"
  shows "handleGenericError e1 = handleGenericError e2"
  using assms by (simp add: handleGenericError_resolution resolution_def)

theorem response_decides_witness:
  "handleGenericError
     (object [(''message'', JString (str ''Timeout'')), (''request'', object []),
              (''response'', object [(''status'', JNumber (Number_of_nat 404)), (''data'', JNull)])]) =
   handleGenericError
     (object [(''response'', object [(''data'', JNull), (''status'', JNumber (Number_of_nat 404)),
                                    (''headers'', object [])])])"
proof -
  let ?e1 = "object [(''message'', JString (str ''Timeout'')), (''request'', object []),
              (''response'', object [(''status'', JNumber (Number_of_nat 404)), (''data'', JNull)])]"
  let ?e2 = "object [(''response'', object [(''data'', JNull), (''status'', JNumber (Number_of_nat 404)),
                                    (''headers'', object [])])]"
  have 1: "ToBoolean (field ?e1 ''response'')" by code_simp
  have 2: "ToBoolean (field ?e2 ''response'')" by code_simp
  have 3: "field (field ?e1 ''response'') ''status'' = field (field ?e2 ''response'') ''status''"
    by code_simp
  have 4: "field (field ?e1 ''response'') ''data'' = field (field ?e2 ''response'') ''data''"
    by code_simp
  show ?thesis by (rule response_decides [OF 1 2 3 4])
qed

subsection \<open>C9: a falsy response is no response\<close>



subsection \<open>C10: primitives fall through to the last rule\<close>

text \<open>
  Claim C10. On null, on undefined, on every number, on every boolean and on every
  string that is empty or consists of white space only, the result is exactly the
  generic message of the last rule. The reads \<^verbatim>\<open>error?.response\<close>, \<^verbatim>\<open>error?.request\<close> and
  \<^verbatim>\<open>error?.message\<close> give undefined on these inputs and raise nothing.
\<close>

theorem primitives_fall_through:
  "handleGenericError JNull =
     Inr (JString (str ''An unexpected error occurred. Please try again.'')) \<and>
   handleGenericError JUndefined =
     Inr (JString (str ''An unexpected error occurred. Please try again.'')) \<and>
   handleGenericError (JNumber x) =
     Inr (JString (str ''An unexpected error occurred. Please try again.'')) \<and>
   handleGenericError (JBoolean b) =
     Inr (JString (str ''An unexpected error occurred. Please try again.'')) \<and>
   (list_all is_whitespace s \<longrightarrow>
      handleGenericError (JString s) =
        Inr (JString (str ''An unexpected error occurred. Please try again.'')))"
  by (auto simp: handleGenericError_resolution resolution_def field_primitive
        list_all_iff list_ex_iff)

theorem primitives_fall_through_witness:
  "list_all is_whitespace (str '' '') \<and>
   handleGenericError (JString (str '' '')) =
     Inr (JString (str ''An unexpected error occurred. Please try again.''))"
proof -
  have 1: "list_all is_whitespace (str '' '')"
    by (simp add: str_def is_whitespace_def)
  from primitives_fall_through [of undefined undefined "str '' ''"] 1 show ?thesis by blast
qed

end
